theory Spec2Isabelle
  imports Main "HOL-Library.Word"
begin

section \<open>Values, files and the serial line\<close>

text \<open>
  The program is \<^verbatim>\<open>Source/Access-Controller.py\<close>: a PyQt window around an allow-list of
  RFID tags. The list lives in \<^verbatim>\<open>self.allowed_tags\<close> and in the file
  \<^verbatim>\<open>allowed_tags.json\<close>; \<^verbatim>\<open>check_tag\<close> looks a scanned tag up in the list and, on a
  hit, writes \<^verbatim>\<open>b"open\n"\<close> to the serial connection \<^verbatim>\<open>self.esp\<close>.

  \<^verbatim>\<open>json.load\<close> returns any Python value a JSON document denotes, so the list read from the
  file may hold values that are not strings. A float is kept as its 64-bit pattern, a
  dictionary as its items in order.
\<close>

datatype pyval =
    PNone
  | PBool bool
  | PInt int
  | PFloat "64 word"
  | PStr string
  | PList "pyval list"
  | PDict "(string \<times> pyval) list"

text \<open>
  The exceptions the source names in \<^verbatim>\<open>except (json.JSONDecodeError, IOError)\<close> and
  \<^verbatim>\<open>except IOError\<close>; every other exception class is \<open>OtherError\<close> and is caught by neither.
  Reading a file can end in one: \<^verbatim>\<open>UnicodeDecodeError\<close> when its bytes are not text in the
  encoding \<^verbatim>\<open>open\<close> uses, \<^verbatim>\<open>RecursionError\<close> when its document is nested too deep.
\<close>

datatype exn = JSONDecodeError | IOError | OtherError

text \<open>
  The file \<^verbatim>\<open>allowed_tags.json\<close>, by what \<^verbatim>\<open>os.path.exists\<close>, \<^verbatim>\<open>open(TAGS_FILE, 'r')\<close> and
  \<^verbatim>\<open>json.load\<close> make of it: it is missing, or reading it raises an exception (\<open>IOError\<close> when
  it cannot be opened, \<open>JSONDecodeError\<close> when its text is not a JSON document), or
  \<^verbatim>\<open>json.load\<close> returns a value.
\<close>

datatype tags_file = Missing | Raises exn | Holds pyval

text \<open>
  What happens to \<^verbatim>\<open>with open(TAGS_FILE, 'w') as f: json.dump(tags, f, indent=2)\<close>:
  the document is written; or \<^verbatim>\<open>open\<close> raises \<open>IOError\<close> and the file stays as it was; or
  the write raises \<open>IOError\<close> after \<^verbatim>\<open>open\<close> has truncated the file, which leaves a proper
  prefix of the document, never a JSON document itself.
\<close>

datatype write_outcome = WriteOk | OpenFails | WriteInterrupted

text \<open>The lines the source prints: \<^verbatim>\<open>print(f"Error loading tags: {e}")\<close> and
  \<^verbatim>\<open>print(f"Error saving tags: {e}")\<close>, with the exception \<^verbatim>\<open>e\<close>.\<close>

datatype printed = ErrorLoadingTags exn | ErrorSavingTags exn

text \<open>The calls a program can make on a pyserial connection, and the two window
  methods \<^verbatim>\<open>check_tag\<close> calls, \<^verbatim>\<open>show_tag_result(text, success)\<close> and
  \<^verbatim>\<open>add_activity(message, type_)\<close>, each recorded with its arguments.\<close>

datatype serial_call = SerialWrite string | SerialRead | SerialClose

datatype ui_call = ShowTagResult string bool | AddActivity string string

text \<open>
  The state: the fields \<^verbatim>\<open>allowed_tags\<close> and \<^verbatim>\<open>esp\<close> of \<^verbatim>\<open>RFIDApp\<close> (\<open>esp\<close> is \<open>None\<close>, or
  the calls made so far on the open connection), the file, the lines printed, and the
  window calls made.
\<close>

record rfid_app =
  allowed_tags :: "pyval list"
  esp :: "serial_call list option"
  disk :: tags_file
  stdout :: "printed list"
  ui :: "ui_call list"

section \<open>The tag store\<close>

definition default_tags :: "pyval list" where
  "default_tags =
     [PStr ''0001234567'', PStr ''0009876543'', PStr ''0005555555'', PStr ''12345'', PStr ''67890'']"

text \<open>\<^verbatim>\<open>save_tags_to_json\<close>: the \<open>IOError\<close> of a failed write is caught and printed.\<close>

fun save_tags_to_json :: "write_outcome \<Rightarrow> pyval list \<Rightarrow> rfid_app \<Rightarrow> rfid_app" where
  "save_tags_to_json WriteOk tags s = s\<lparr>disk := Holds (PList tags)\<rparr>"
| "save_tags_to_json OpenFails tags s = s\<lparr>stdout := stdout s @ [ErrorSavingTags IOError]\<rparr>"
| "save_tags_to_json WriteInterrupted tags s =
     s\<lparr>disk := Raises JSONDecodeError, stdout := stdout s @ [ErrorSavingTags IOError]\<rparr>"

text \<open>
  \<^verbatim>\<open>load_tags_from_json\<close>. The argument \<open>w\<close> is the outcome of the one write the function
  may make. An exception of \<^verbatim>\<open>open\<close> or \<^verbatim>\<open>json.load\<close> outside the two handled classes
  leaves the function (\<open>Inl\<close>).
\<close>

definition load_tags_from_json :: "write_outcome \<Rightarrow> rfid_app \<Rightarrow> exn + (pyval list \<times> rfid_app)" where
  "load_tags_from_json w s =
     (case disk s of
        Holds tags \<Rightarrow>
          (case tags of
             PList xs \<Rightarrow> Inr (xs, s)
           | _ \<Rightarrow> Inr (default_tags, save_tags_to_json w default_tags s))
      | Missing \<Rightarrow> Inr (default_tags, save_tags_to_json w default_tags s)
      | Raises e \<Rightarrow>
          (if e = JSONDecodeError \<or> e = IOError
           then Inr (default_tags,
                     save_tags_to_json w default_tags (s\<lparr>stdout := stdout s @ [ErrorLoadingTags e]\<rparr>))
           else Inl e))"

text \<open>
  \<^verbatim>\<open>add_tag_to_json\<close> and \<^verbatim>\<open>remove_tag_from_json\<close>. Their callers pass a \<^verbatim>\<open>str\<close> (the text
  of an input field or of a list item), and a \<^verbatim>\<open>str\<close> equals no value of another type, so
  Python's \<^verbatim>\<open>tag in self.allowed_tags\<close> is \<open>PStr tag \<in> set (allowed_tags s)\<close>.
  \<^verbatim>\<open>list.remove\<close> deletes the first equal element, as \<open>remove1\<close> does; it is called only
  when the tag is in the list.
\<close>

definition add_tag_to_json :: "write_outcome \<Rightarrow> string \<Rightarrow> rfid_app \<Rightarrow> bool \<times> rfid_app" where
  "add_tag_to_json w tag s =
     (if PStr tag \<notin> set (allowed_tags s)
      then (let tags = allowed_tags s @ [PStr tag]
            in (True, save_tags_to_json w tags (s\<lparr>allowed_tags := tags\<rparr>)))
      else (False, s))"

definition remove_tag_from_json :: "write_outcome \<Rightarrow> string \<Rightarrow> rfid_app \<Rightarrow> bool \<times> rfid_app" where
  "remove_tag_from_json w tag s =
     (if PStr tag \<in> set (allowed_tags s)
      then (let tags = remove1 (PStr tag) (allowed_tags s)
            in (True, save_tags_to_json w tags (s\<lparr>allowed_tags := tags\<rparr>)))
      else (False, s))"

section \<open>The access check\<close>

definition show_tag_result :: "string \<Rightarrow> bool \<Rightarrow> rfid_app \<Rightarrow> rfid_app" where
  "show_tag_result text success s = s\<lparr>ui := ui s @ [ShowTagResult text success]\<rparr>"

definition add_activity :: "string \<Rightarrow> string \<Rightarrow> rfid_app \<Rightarrow> rfid_app" where
  "add_activity message kind s = s\<lparr>ui := ui s @ [AddActivity message kind]\<rparr>"

text \<open>\<^verbatim>\<open>self.esp.write(data)\<close>, under \<^verbatim>\<open>if self.esp:\<close>.\<close>

definition esp_write :: "string \<Rightarrow> rfid_app \<Rightarrow> rfid_app" where
  "esp_write data s =
     (case esp s of
        Some calls \<Rightarrow> s\<lparr>esp := Some (calls @ [SerialWrite data])\<rparr>
      | None \<Rightarrow> s)"

text \<open>The two marks of the activity messages, U+274C and U+2705, in UTF-8.\<close>

definition cross_mark :: string where
  "cross_mark = [CHR 0xE2, CHR 0x9D, CHR 0x8C]"

definition check_mark :: string where
  "check_mark = [CHR 0xE2, CHR 0x9C, CHR 0x85]"

definition check_tag :: "string \<Rightarrow> rfid_app \<Rightarrow> rfid_app" where
  "check_tag tag s =
     (if tag = []
      then add_activity (cross_mark @ '' Empty tag'') ''error''
             (show_tag_result ''EMPTY TAG'' False s)
      else if PStr tag \<in> set (allowed_tags s)
      then add_activity (check_mark @ '' Access granted: '' @ tag) ''success''
             (esp_write (''open'' @ [CHR 0x0A])
               (show_tag_result (''ACCESS GRANTED'' @ [CHR 0x0A] @ tag) True s))
      else add_activity (cross_mark @ '' Access denied: '' @ tag) ''error''
             (show_tag_result (''ACCESS DENIED'' @ [CHR 0x0A] @ tag) False s))"

section \<open>Sessions\<close>

text \<open>Tags added one after the other through \<^verbatim>\<open>add_tag_to_json\<close>, every write succeeding.\<close>

fun add_tags :: "string list \<Rightarrow> rfid_app \<Rightarrow> rfid_app" where
  "add_tags [] s = s"
| "add_tags (t # ts) s = add_tags ts (snd (add_tag_to_json WriteOk t s))"

text \<open>
  A state for the concrete instances below: the store holds one tag and the empty string,
  the serial connection is open and unused, and there is no file yet.
\<close>

definition door :: rfid_app where
  "door = \<lparr>allowed_tags = [PStr ''12345'', PStr []], esp = Some [], disk = Missing,
            stdout = [], ui = []\<rparr>"

section \<open>Facts about the operations\<close>

lemma esp_write_fields:
  "ui (esp_write d s) = ui s" "allowed_tags (esp_write d s) = allowed_tags s"
  "disk (esp_write d s) = disk s" "stdout (esp_write d s) = stdout s"
  by (simp_all add: esp_write_def split: option.split)

lemma save_tags_to_json_fields:
  "allowed_tags (save_tags_to_json w tags s) = allowed_tags s"
  "esp (save_tags_to_json w tags s) = esp s"
  "ui (save_tags_to_json w tags s) = ui s"
  by (cases w; simp)+

lemma save_tags_to_json_stdout:
  "stdout (save_tags_to_json w tags s) =
     (if w = WriteOk then stdout s else stdout s @ [ErrorSavingTags IOError])"
  by (cases w) simp_all

lemma check_tag_empty:
  "check_tag [] s =
     s\<lparr>ui := ui s @ [ShowTagResult ''EMPTY TAG'' False,
                      AddActivity (cross_mark @ '' Empty tag'') ''error'']\<rparr>"
  by (simp add: check_tag_def add_activity_def show_tag_result_def)

lemma check_tag_granted:
  assumes "tag \<noteq> []" and "PStr tag \<in> set (allowed_tags s)"
  shows "check_tag tag s =
     (esp_write (''open'' @ [CHR 0x0A]) s)
       \<lparr>ui := ui s @ [ShowTagResult (''ACCESS GRANTED'' @ [CHR 0x0A] @ tag) True,
                      AddActivity (check_mark @ '' Access granted: '' @ tag) ''success'']\<rparr>"
  using assms
  by (simp add: check_tag_def add_activity_def show_tag_result_def esp_write_def
      split: option.split)

lemma check_tag_denied:
  assumes "tag \<noteq> []" and "PStr tag \<notin> set (allowed_tags s)"
  shows "check_tag tag s =
     s\<lparr>ui := ui s @ [ShowTagResult (''ACCESS DENIED'' @ [CHR 0x0A] @ tag) False,
                      AddActivity (cross_mark @ '' Access denied: '' @ tag) ''error'']\<rparr>"
  using assms by (simp add: check_tag_def add_activity_def show_tag_result_def)

text \<open>The window calls one check makes: what it appends to the calls made before.\<close>

lemma check_tag_calls:
  "drop (length (ui s)) (ui (check_tag tag s)) =
     (if tag = []
      then [ShowTagResult ''EMPTY TAG'' False, AddActivity (cross_mark @ '' Empty tag'') ''error'']
      else if PStr tag \<in> set (allowed_tags s)
      then [ShowTagResult (''ACCESS GRANTED'' @ [CHR 0x0A] @ tag) True,
            AddActivity (check_mark @ '' Access granted: '' @ tag) ''success'']
      else [ShowTagResult (''ACCESS DENIED'' @ [CHR 0x0A] @ tag) False,
            AddActivity (cross_mark @ '' Access denied: '' @ tag) ''error''])"
  by (simp add: check_tag_empty check_tag_granted check_tag_denied esp_write_fields)

lemma add_tag_to_json_present:
  "PStr tag \<in> set (allowed_tags s) \<Longrightarrow> add_tag_to_json w tag s = (False, s)"
  by (simp add: add_tag_to_json_def)

lemma add_tag_to_json_fresh:
  assumes "PStr tag \<notin> set (allowed_tags s)"
  shows "fst (add_tag_to_json w tag s)"
    and "allowed_tags (snd (add_tag_to_json w tag s)) = allowed_tags s @ [PStr tag]"
    and "add_tag_to_json WriteOk tag s =
           (True, s\<lparr>allowed_tags := allowed_tags s @ [PStr tag],
                     disk := Holds (PList (allowed_tags s @ [PStr tag]))\<rparr>)"
  using assms by (simp_all add: add_tag_to_json_def Let_def save_tags_to_json_fields)

lemma remove1_first_occurrence:
  assumes "x \<in> set xs"
  shows "\<exists>ys zs. xs = ys @ x # zs \<and> x \<notin> set ys \<and> remove1 x xs = ys @ zs"
proof -
  from assms obtain ys zs where "xs = ys @ x # zs" and "x \<notin> set ys"
    by (auto dest: split_list_first)
  then have "remove1 x xs = ys @ zs"
    by (simp add: remove1_append)
  with \<open>xs = ys @ x # zs\<close> \<open>x \<notin> set ys\<close> show ?thesis by blast
qed

lemma remove1_still_member:
  "x \<in> set (remove1 x xs) \<longleftrightarrow> 1 < count_list xs x"
proof (induction xs)
  case Nil
  then show ?case by simp
next
  case (Cons y ys)
  show ?case
  proof (cases "y = x")
    case True
    then show ?thesis
      using count_list_0_iff [of ys x] by auto
  next
    case False
    with Cons.IH show ?thesis by simp
  qed
qed

lemma remove_tag_from_json_absent:
  "PStr tag \<notin> set (allowed_tags s) \<Longrightarrow> remove_tag_from_json w tag s = (False, s)"
  by (simp add: remove_tag_from_json_def)

lemma remove_tag_from_json_present:
  assumes "PStr tag \<in> set (allowed_tags s)"
  shows "fst (remove_tag_from_json w tag s)"
    and "allowed_tags (snd (remove_tag_from_json w tag s)) = remove1 (PStr tag) (allowed_tags s)"
    and "remove_tag_from_json WriteOk tag s =
           (True, s\<lparr>allowed_tags := remove1 (PStr tag) (allowed_tags s),
                     disk := Holds (PList (remove1 (PStr tag) (allowed_tags s)))\<rparr>)"
  using assms by (simp_all add: remove_tag_from_json_def Let_def save_tags_to_json_fields)

lemma load_tags_from_json_list:
  "disk s = Holds (PList xs) \<Longrightarrow> load_tags_from_json w s = Inr (xs, s)"
  by (simp add: load_tags_from_json_def)

text \<open>Whatever \<^verbatim>\<open>load_tags_from_json\<close> returns is the array of the file or the default list.\<close>

lemma load_tags_from_json_cases:
  assumes "load_tags_from_json w s = Inr (tags, s')"
  shows "disk s = Holds (PList tags) \<or> tags = default_tags"
  using assms
  by (auto simp: load_tags_from_json_def split: tags_file.splits pyval.splits if_splits)

lemma distinct_default_tags: "distinct default_tags"
  by (simp add: default_tags_def)

lemma add_tags_store:
  "distinct ts \<Longrightarrow> \<forall>t\<in>set ts. PStr t \<notin> set (allowed_tags s) \<Longrightarrow>
     allowed_tags (add_tags ts s) = allowed_tags s @ map PStr ts"
proof (induction ts arbitrary: s)
  case Nil
  then show ?case by simp
next
  case (Cons t ts)
  let ?s = "snd (add_tag_to_json WriteOk t s)"
  have st: "allowed_tags ?s = allowed_tags s @ [PStr t]"
    using Cons.prems by (simp add: add_tag_to_json_fresh(2))
  have "\<forall>u\<in>set ts. PStr u \<notin> set (allowed_tags ?s)"
    using Cons.prems st by auto
  with Cons.IH [of ?s] Cons.prems st show ?case by simp
qed

text \<open>The file agrees with the list in memory after a successful write, and stays so.\<close>

lemma add_tag_to_json_sync:
  "disk s = Holds (PList (allowed_tags s)) \<or> PStr t \<notin> set (allowed_tags s) \<Longrightarrow>
     disk (snd (add_tag_to_json WriteOk t s))
       = Holds (PList (allowed_tags (snd (add_tag_to_json WriteOk t s))))"
  by (auto simp: add_tag_to_json_def Let_def)

lemma add_tags_sync:
  "disk s = Holds (PList (allowed_tags s)) \<Longrightarrow>
     disk (add_tags ts s) = Holds (PList (allowed_tags (add_tags ts s)))"
  by (induction ts arbitrary: s) (simp_all add: add_tag_to_json_sync)

lemma add_tags_disk:
  assumes "ts \<noteq> []" and "\<forall>t\<in>set ts. PStr t \<notin> set (allowed_tags s)"
  shows "disk (add_tags ts s) = Holds (PList (allowed_tags (add_tags ts s)))"
proof (cases ts)
  case Nil
  with assms show ?thesis by simp
next
  case (Cons t ts')
  with assms have "PStr t \<notin> set (allowed_tags s)" by simp
  then have "disk (snd (add_tag_to_json WriteOk t s))
       = Holds (PList (allowed_tags (snd (add_tag_to_json WriteOk t s))))"
    by (simp add: add_tag_to_json_sync)
  then show ?thesis
    unfolding Cons by (simp add: add_tags_sync)
qed

lemma add_tag_to_json_ui: "ui (snd (add_tag_to_json w tag s)) = ui s"
  by (simp add: add_tag_to_json_def Let_def save_tags_to_json_fields)

lemma add_tag_to_json_member: "PStr tag \<in> set (allowed_tags (snd (add_tag_to_json w tag s)))"
  by (simp add: add_tag_to_json_def Let_def save_tags_to_json_fields)

lemma check_tag_after_add:
  assumes "tag \<noteq> []"
  shows "drop (length (ui s)) (ui (check_tag tag (snd (add_tag_to_json w tag s))))
          = [ShowTagResult (''ACCESS GRANTED'' @ [CHR 0x0A] @ tag) True,
             AddActivity (check_mark @ '' Access granted: '' @ tag) ''success'']"
  using assms check_tag_calls [of "snd (add_tag_to_json w tag s)" tag]
  by (simp add: add_tag_to_json_ui add_tag_to_json_member)

section \<open>The access check: claims C1 and C8\<close>

text \<open>
  C1. For every tag string given to \<^verbatim>\<open>check_tag\<close> and every state: the empty string is
  rejected with the "EMPTY TAG" result and the "Empty tag" activity line, whatever the store
  holds (also when the store holds the empty string), and nothing is written to the serial
  connection; a non-empty string that is in the store is granted; a non-empty string that
  is not in the store is denied. The window calls made for the empty string have no call in
  common with the calls made for any non-empty tag, in any state.
\<close>

theorem check_tag_policy:
  "(tag = [] \<longrightarrow>
      check_tag tag s =
        s\<lparr>ui := ui s @ [ShowTagResult ''EMPTY TAG'' False,
                         AddActivity (cross_mark @ '' Empty tag'') ''error'']\<rparr>)
   \<and> (tag \<noteq> [] \<and> PStr tag \<in> set (allowed_tags s) \<longrightarrow>
      check_tag tag s =
        (esp_write (''open'' @ [CHR 0x0A]) s)
          \<lparr>ui := ui s @ [ShowTagResult (''ACCESS GRANTED'' @ [CHR 0x0A] @ tag) True,
                         AddActivity (check_mark @ '' Access granted: '' @ tag) ''success'']\<rparr>)
   \<and> (tag \<noteq> [] \<and> PStr tag \<notin> set (allowed_tags s) \<longrightarrow>
      check_tag tag s =
        s\<lparr>ui := ui s @ [ShowTagResult (''ACCESS DENIED'' @ [CHR 0x0A] @ tag) False,
                         AddActivity (cross_mark @ '' Access denied: '' @ tag) ''error'']\<rparr>)
   \<and> (tag \<noteq> [] \<longrightarrow>
      set (drop (length (ui s)) (ui (check_tag [] s)))
        \<inter> set (drop (length (ui s')) (ui (check_tag tag s'))) = {})"
proof (intro conjI impI)
  assume "tag = []"
  then show "check_tag tag s =
        s\<lparr>ui := ui s @ [ShowTagResult ''EMPTY TAG'' False,
                         AddActivity (cross_mark @ '' Empty tag'') ''error'']\<rparr>"
    by (simp add: check_tag_empty)
next
  assume "tag \<noteq> [] \<and> PStr tag \<in> set (allowed_tags s)"
  then show "check_tag tag s =
        (esp_write (''open'' @ [CHR 0x0A]) s)
          \<lparr>ui := ui s @ [ShowTagResult (''ACCESS GRANTED'' @ [CHR 0x0A] @ tag) True,
                         AddActivity (check_mark @ '' Access granted: '' @ tag) ''success'']\<rparr>"
    by (simp add: check_tag_granted)
next
  assume "tag \<noteq> [] \<and> PStr tag \<notin> set (allowed_tags s)"
  then show "check_tag tag s =
        s\<lparr>ui := ui s @ [ShowTagResult (''ACCESS DENIED'' @ [CHR 0x0A] @ tag) False,
                         AddActivity (cross_mark @ '' Access denied: '' @ tag) ''error'']\<rparr>"
    by (simp add: check_tag_denied)
next
  assume "tag \<noteq> []"
  then show "set (drop (length (ui s)) (ui (check_tag [] s)))
        \<inter> set (drop (length (ui s')) (ui (check_tag tag s'))) = {}"
    unfolding check_tag_calls by (simp add: cross_mark_def check_mark_def)
qed

text \<open>In \<open>door\<close>, whose store holds the empty string: the empty tag, a stored tag, an
  unknown tag.\<close>

theorem check_tag_policy_witness:
  "check_tag [] door =
     door\<lparr>ui := [ShowTagResult ''EMPTY TAG'' False,
                  AddActivity (cross_mark @ '' Empty tag'') ''error'']\<rparr>
   \<and> ui (check_tag ''12345'' door) =
       [ShowTagResult (''ACCESS GRANTED'' @ [CHR 0x0A] @ ''12345'') True,
        AddActivity (check_mark @ '' Access granted: 12345'') ''success'']
   \<and> check_tag ''67890'' door =
       door\<lparr>ui := [ShowTagResult (''ACCESS DENIED'' @ [CHR 0x0A] @ ''67890'') False,
                    AddActivity (cross_mark @ '' Access denied: 67890'') ''error'']\<rparr>"
  using check_tag_policy [where tag = "[]" and s = door and s' = door]
    check_tag_policy [where tag = "''12345''" and s = door and s' = door]
    check_tag_policy [where tag = "''67890''" and s = door and s' = door]
  by (simp add: door_def esp_write_def)

text \<open>
  C8. On every grant (a non-empty tag that is in the store) with the serial connection
  open, the calls made on the connection grow by exactly one: the write of the bytes
  \<^verbatim>\<open>open\<close> and a newline. No read is made.
\<close>

theorem grant_writes_open:
  "tag \<noteq> [] \<and> PStr tag \<in> set (allowed_tags s) \<and> esp s = Some calls \<longrightarrow>
     esp (check_tag tag s) = Some (calls @ [SerialWrite (''open'' @ [CHR 0x0A])])"
  by (simp add: check_tag_granted esp_write_def)

theorem grant_writes_open_witness:
  "esp (check_tag ''12345'' door) = Some [SerialWrite [CHR ''o'', CHR ''p'', CHR ''e'', CHR ''n'', CHR 0x0A]]"
  using grant_writes_open [where tag = "''12345''" and s = door and calls = "[]"]
  by (simp add: door_def)

section \<open>The tag store: claims C2, C3, C5 and C9\<close>

text \<open>
  C2. For every state and tag: when the tag is already in the store, \<^verbatim>\<open>add_tag_to_json\<close>
  returns False and changes nothing; otherwise it returns True and the store is the old
  store with the tag appended at its end, and when the write succeeds the file holds that
  whole list.
\<close>

theorem add_tag_to_json_spec:
  "(PStr tag \<in> set (allowed_tags s) \<longrightarrow> add_tag_to_json w tag s = (False, s))
   \<and> (PStr tag \<notin> set (allowed_tags s) \<longrightarrow>
        fst (add_tag_to_json w tag s) = True
        \<and> allowed_tags (snd (add_tag_to_json w tag s)) = allowed_tags s @ [PStr tag]
        \<and> add_tag_to_json WriteOk tag s =
            (True, s\<lparr>allowed_tags := allowed_tags s @ [PStr tag],
                      disk := Holds (PList (allowed_tags s @ [PStr tag]))\<rparr>))"
  using add_tag_to_json_present [where tag = tag and s = s and w = w]
    add_tag_to_json_fresh(1,2) [where tag = tag and s = s and w = w]
    add_tag_to_json_fresh(3) [where tag = tag and s = s]
  by simp

theorem add_tag_to_json_spec_witness:
  "add_tag_to_json WriteOk ''12345'' door = (False, door)
   \<and> add_tag_to_json WriteOk ''777'' door =
       (True, door\<lparr>allowed_tags := [PStr ''12345'', PStr [], PStr ''777''],
                    disk := Holds (PList [PStr ''12345'', PStr [], PStr ''777''])\<rparr>)"
  using add_tag_to_json_spec [where tag = "''12345''" and s = door and w = WriteOk]
    add_tag_to_json_spec [where tag = "''777''" and s = door and w = WriteOk]
  by (simp add: door_def)

text \<open>
  C3, as the specification states it: when the tag is in the store, removing it takes the
  tag out of the store. It fails for a store that holds the tag more than once, as a store
  loaded from a file holding \<^verbatim>\<open>["a", "b", "a"]\<close> does: the call returns True and the tag is
  still in the store.
\<close>

theorem remove_leaves_duplicate:
  "remove_tag_from_json WriteOk ''a''
      \<lparr>allowed_tags = [PStr ''a'', PStr ''b'', PStr ''a''], esp = None,
        disk = Holds (PList [PStr ''a'', PStr ''b'', PStr ''a'']), stdout = [], ui = []\<rparr>
    = (True,
       \<lparr>allowed_tags = [PStr ''b'', PStr ''a''], esp = None,
         disk = Holds (PList [PStr ''b'', PStr ''a'']), stdout = [], ui = []\<rparr>)
   \<and> PStr ''a'' \<in> set [PStr ''b'', PStr ''a'']"
  by (simp add: remove_tag_from_json_def Let_def)

text \<open>
  C3, amended. For every state and tag: when the tag is not in the store,
  \<^verbatim>\<open>remove_tag_from_json\<close> returns False and changes nothing; otherwise it returns True, the
  store loses the first occurrence of the tag and keeps every other element, later
  occurrences of the tag included, in its place, and when the write succeeds the file holds
  the whole new list. The tag is still in the store afterwards exactly when it was there
  more than once.
\<close>

theorem remove_tag_from_json_spec:
  "(PStr tag \<notin> set (allowed_tags s) \<longrightarrow> remove_tag_from_json w tag s = (False, s))
   \<and> (PStr tag \<in> set (allowed_tags s) \<longrightarrow>
        fst (remove_tag_from_json w tag s) = True
        \<and> (\<exists>ys zs. allowed_tags s = ys @ PStr tag # zs \<and> PStr tag \<notin> set ys
              \<and> allowed_tags (snd (remove_tag_from_json w tag s)) = ys @ zs)
        \<and> (PStr tag \<in> set (allowed_tags (snd (remove_tag_from_json w tag s)))
              \<longleftrightarrow> 1 < count_list (allowed_tags s) (PStr tag))
        \<and> remove_tag_from_json WriteOk tag s =
              (True, s\<lparr>allowed_tags := remove1 (PStr tag) (allowed_tags s),
                        disk := Holds (PList (remove1 (PStr tag) (allowed_tags s)))\<rparr>))"
proof (intro conjI impI)
  assume "PStr tag \<notin> set (allowed_tags s)"
  then show "remove_tag_from_json w tag s = (False, s)"
    by (rule remove_tag_from_json_absent)
next
  assume p: "PStr tag \<in> set (allowed_tags s)"
  show "fst (remove_tag_from_json w tag s) = True"
    using remove_tag_from_json_present(1) [OF p] by simp
  show "\<exists>ys zs. allowed_tags s = ys @ PStr tag # zs \<and> PStr tag \<notin> set ys
              \<and> allowed_tags (snd (remove_tag_from_json w tag s)) = ys @ zs"
    using remove1_first_occurrence [OF p] remove_tag_from_json_present(2) [OF p] by simp
  show "PStr tag \<in> set (allowed_tags (snd (remove_tag_from_json w tag s)))
              \<longleftrightarrow> 1 < count_list (allowed_tags s) (PStr tag)"
    using remove_tag_from_json_present(2) [OF p] by (simp add: remove1_still_member)
  show "remove_tag_from_json WriteOk tag s =
              (True, s\<lparr>allowed_tags := remove1 (PStr tag) (allowed_tags s),
                        disk := Holds (PList (remove1 (PStr tag) (allowed_tags s)))\<rparr>)"
    using remove_tag_from_json_present(3) [OF p] .
qed

text \<open>In \<open>door\<close>: a tag that is not stored, a tag stored once; and a tag stored twice.\<close>

theorem remove_tag_from_json_spec_witness:
  "remove_tag_from_json WriteOk ''777'' door = (False, door)
   \<and> remove_tag_from_json WriteOk ''12345'' door =
       (True, door\<lparr>allowed_tags := [PStr []], disk := Holds (PList [PStr []])\<rparr>)
   \<and> PStr ''12345'' \<notin> set (allowed_tags (snd (remove_tag_from_json WriteOk ''12345'' door)))
   \<and> allowed_tags (snd (remove_tag_from_json OpenFails ''1''
         (door\<lparr>allowed_tags := [PStr ''1'', PStr ''2'', PStr ''1'']\<rparr>)))
       = [PStr ''2'', PStr ''1'']
   \<and> PStr ''1'' \<in> set (allowed_tags (snd (remove_tag_from_json OpenFails ''1''
         (door\<lparr>allowed_tags := [PStr ''1'', PStr ''2'', PStr ''1'']\<rparr>))))"
  using remove_tag_from_json_spec [where tag = "''777''" and s = door and w = WriteOk]
    remove_tag_from_json_spec [where tag = "''12345''" and s = door and w = WriteOk]
    remove_tag_from_json_spec [where tag = "''1''" and w = OpenFails
      and s = "door\<lparr>allowed_tags := [PStr ''1'', PStr ''2'', PStr ''1'']\<rparr>"]
  by (simp add: door_def remove_tag_from_json_def Let_def)

text \<open>
  C5, as the specification states it: every operation that produces a store, loading
  included, yields a sequence without duplicates. It fails for loading: a file that holds
  the array \<^verbatim>\<open>["12345", "12345"]\<close> is returned as it is.
\<close>

theorem load_keeps_duplicates:
  "load_tags_from_json WriteOk
      \<lparr>allowed_tags = [], esp = None,
        disk = Holds (PList [PStr ''12345'', PStr ''12345'']), stdout = [], ui = []\<rparr>
    = Inr ([PStr ''12345'', PStr ''12345''],
           \<lparr>allowed_tags = [], esp = None,
             disk = Holds (PList [PStr ''12345'', PStr ''12345'']), stdout = [], ui = []\<rparr>)
   \<and> \<not> distinct [PStr ''12345'', PStr ''12345'']"
  by (simp add: load_tags_from_json_def)

text \<open>
  C5, amended: the default list has no duplicates; what \<^verbatim>\<open>load_tags_from_json\<close> returns
  has none unless the file holds an array that has some; \<^verbatim>\<open>add_tag_to_json\<close> and
  \<^verbatim>\<open>remove_tag_from_json\<close> turn a store without duplicates into a store without duplicates.
\<close>

theorem store_duplicate_free:
  "distinct default_tags
   \<and> (load_tags_from_json w s = Inr (tags, s')
        \<and> (\<forall>xs. disk s = Holds (PList xs) \<longrightarrow> distinct xs) \<longrightarrow> distinct tags)
   \<and> (distinct (allowed_tags s) \<longrightarrow>
        distinct (allowed_tags (snd (add_tag_to_json w tag s)))
        \<and> distinct (allowed_tags (snd (remove_tag_from_json w tag s))))"
proof (intro conjI impI)
  show "distinct default_tags" by (rule distinct_default_tags)
next
  assume "load_tags_from_json w s = Inr (tags, s')
        \<and> (\<forall>xs. disk s = Holds (PList xs) \<longrightarrow> distinct xs)"
  then show "distinct tags"
    using load_tags_from_json_cases [of w s tags s'] distinct_default_tags by auto
next
  assume d: "distinct (allowed_tags s)"
  show "distinct (allowed_tags (snd (add_tag_to_json w tag s)))"
    using d by (cases "PStr tag \<in> set (allowed_tags s)")
      (simp_all add: add_tag_to_json_present add_tag_to_json_fresh(2))
  show "distinct (allowed_tags (snd (remove_tag_from_json w tag s)))"
    using d by (cases "PStr tag \<in> set (allowed_tags s)")
      (simp_all add: remove_tag_from_json_absent remove_tag_from_json_present(2))
qed

theorem store_duplicate_free_witness:
  "load_tags_from_json WriteOk (door\<lparr>disk := Holds (PList [PStr ''1'', PStr ''2''])\<rparr>)
     = Inr ([PStr ''1'', PStr ''2''], door\<lparr>disk := Holds (PList [PStr ''1'', PStr ''2''])\<rparr>)
   \<and> distinct [PStr ''1'', PStr ''2'']
   \<and> distinct (allowed_tags door)
   \<and> distinct (allowed_tags (snd (add_tag_to_json WriteOk ''777'' door)))
   \<and> distinct (allowed_tags (snd (remove_tag_from_json WriteOk ''12345'' door)))"
  using store_duplicate_free [where w = WriteOk and tag = "''777''" and s = door]
    store_duplicate_free [where w = WriteOk and tag = "''12345''" and s = door]
    store_duplicate_free [where w = WriteOk
      and s = "door\<lparr>disk := Holds (PList [PStr ''1'', PStr ''2''])\<rparr>"
      and tags = "[PStr ''1'', PStr ''2'']"
      and s' = "door\<lparr>disk := Holds (PList [PStr ''1'', PStr ''2''])\<rparr>"]
  by (simp add: door_def load_tags_from_json_def)

text \<open>
  C9. For every add and every remove, a failed write (of either kind) changes neither the
  value returned nor the store in memory: both are what they are when the write succeeds.
  The functions return a value in every case, so nothing is raised. The failure is printed
  as one "Error saving tags" line. The store in memory is the one later checks use: a tag
  added while the write failed is granted.
\<close>

theorem write_failure_not_fatal:
  "fst (add_tag_to_json w tag s) = fst (add_tag_to_json WriteOk tag s)
   \<and> allowed_tags (snd (add_tag_to_json w tag s))
       = allowed_tags (snd (add_tag_to_json WriteOk tag s))
   \<and> fst (remove_tag_from_json w tag s) = fst (remove_tag_from_json WriteOk tag s)
   \<and> allowed_tags (snd (remove_tag_from_json w tag s))
       = allowed_tags (snd (remove_tag_from_json WriteOk tag s))
   \<and> (w \<noteq> WriteOk \<and> PStr tag \<notin> set (allowed_tags s) \<longrightarrow>
        stdout (snd (add_tag_to_json w tag s)) = stdout s @ [ErrorSavingTags IOError])
   \<and> (w \<noteq> WriteOk \<and> PStr tag \<in> set (allowed_tags s) \<longrightarrow>
        stdout (snd (remove_tag_from_json w tag s)) = stdout s @ [ErrorSavingTags IOError])
   \<and> (tag \<noteq> [] \<longrightarrow>
        drop (length (ui s)) (ui (check_tag tag (snd (add_tag_to_json w tag s))))
          = [ShowTagResult (''ACCESS GRANTED'' @ [CHR 0x0A] @ tag) True,
             AddActivity (check_mark @ '' Access granted: '' @ tag) ''success''])"
proof (cases "PStr tag \<in> set (allowed_tags s)")
  case True
  then show ?thesis
    by (simp add: check_tag_after_add add_tag_to_json_present remove_tag_from_json_present(1,2))
      (simp add: remove_tag_from_json_def Let_def save_tags_to_json_stdout check_tag_calls)
next
  case False
  then show ?thesis
    by (simp add: check_tag_after_add remove_tag_from_json_absent add_tag_to_json_fresh(1,2))
      (simp add: add_tag_to_json_def Let_def save_tags_to_json_stdout)
qed

theorem write_failure_not_fatal_witness:
  "add_tag_to_json OpenFails ''777'' door =
     (True, door\<lparr>allowed_tags := [PStr ''12345'', PStr [], PStr ''777''],
                  stdout := [ErrorSavingTags IOError]\<rparr>)
   \<and> remove_tag_from_json WriteInterrupted ''12345'' door =
     (True, door\<lparr>allowed_tags := [PStr []], disk := Raises JSONDecodeError,
                  stdout := [ErrorSavingTags IOError]\<rparr>)
   \<and> ui (check_tag ''777'' (snd (add_tag_to_json OpenFails ''777'' door))) =
       [ShowTagResult (''ACCESS GRANTED'' @ [CHR 0x0A] @ ''777'') True,
        AddActivity (check_mark @ '' Access granted: 777'') ''success'']"
  using write_failure_not_fatal [where w = OpenFails and tag = "''777''" and s = door]
    write_failure_not_fatal [where w = WriteInterrupted and tag = "''12345''" and s = door]
  by (simp add: door_def add_tag_to_json_def remove_tag_from_json_def check_tag_def
      show_tag_result_def add_activity_def esp_write_def)

section \<open>Loading and saving: claims C4, C6, C7 and C10\<close>

text \<open>
  C4. Round trip: a list saved by a write that succeeds is what loading returns, element
  for element; and after any non-empty sequence of new, different tags added one after the
  other (every write succeeding), the store is the old store followed by those tags in the
  order they were added, and loading from the file returns exactly that list and changes
  nothing.
\<close>

theorem save_reload_roundtrip:
  "load_tags_from_json w (save_tags_to_json WriteOk tags s)
      = Inr (tags, save_tags_to_json WriteOk tags s)
   \<and> (ts \<noteq> [] \<and> distinct ts \<and> (\<forall>t\<in>set ts. PStr t \<notin> set (allowed_tags s)) \<longrightarrow>
        allowed_tags (add_tags ts s) = allowed_tags s @ map PStr ts
        \<and> load_tags_from_json w (add_tags ts s)
            = Inr (allowed_tags s @ map PStr ts, add_tags ts s))"
proof (intro conjI impI)
  show "load_tags_from_json w (save_tags_to_json WriteOk tags s)
      = Inr (tags, save_tags_to_json WriteOk tags s)"
    by (simp add: load_tags_from_json_list)
next
  assume h: "ts \<noteq> [] \<and> distinct ts \<and> (\<forall>t\<in>set ts. PStr t \<notin> set (allowed_tags s))"
  then show st: "allowed_tags (add_tags ts s) = allowed_tags s @ map PStr ts"
    by (simp add: add_tags_store)
  from h have "disk (add_tags ts s) = Holds (PList (allowed_tags (add_tags ts s)))"
    by (simp add: add_tags_disk)
  then show "load_tags_from_json w (add_tags ts s)
            = Inr (allowed_tags s @ map PStr ts, add_tags ts s)"
    using st by (simp add: load_tags_from_json_list)
qed

theorem save_reload_roundtrip_witness:
  "load_tags_from_json OpenFails (add_tags [''111'', ''222''] door)
     = Inr ([PStr ''12345'', PStr [], PStr ''111'', PStr ''222''],
            door\<lparr>allowed_tags := [PStr ''12345'', PStr [], PStr ''111'', PStr ''222''],
                 disk := Holds (PList [PStr ''12345'', PStr [], PStr ''111'', PStr ''222''])\<rparr>)"
  using save_reload_roundtrip [where w = OpenFails and ts = "[''111'', ''222'']" and s = door
      and tags = "[]"]
  by (simp add: door_def add_tag_to_json_def Let_def)

text \<open>
  C6. When the file is missing, \<^verbatim>\<open>load_tags_from_json\<close> returns the default list, which is
  the five fixed tags, whatever becomes of the write; when the write succeeds, the file
  then exists and holds the default list, and nothing else has changed.
\<close>

theorem load_missing_file:
  "disk s = Missing \<longrightarrow>
     load_tags_from_json WriteOk s = Inr (default_tags, s\<lparr>disk := Holds (PList default_tags)\<rparr>)
     \<and> (\<exists>s'. load_tags_from_json w s = Inr (default_tags, s'))
     \<and> default_tags =
         [PStr ''0001234567'', PStr ''0009876543'', PStr ''0005555555'', PStr ''12345'',
          PStr ''67890'']"
  by (simp add: load_tags_from_json_def default_tags_def)

theorem load_missing_file_witness:
  "load_tags_from_json WriteOk door =
     Inr ([PStr ''0001234567'', PStr ''0009876543'', PStr ''0005555555'', PStr ''12345'',
           PStr ''67890''],
          door\<lparr>disk := Holds (PList [PStr ''0001234567'', PStr ''0009876543'',
                   PStr ''0005555555'', PStr ''12345'', PStr ''67890''])\<rparr>)"
  using load_missing_file [where s = door and w = WriteOk]
  by (simp add: door_def)




text \<open>
  C10. When the file holds any JSON array at all (the empty array, an array with elements
  that are not strings, an array with duplicates), \<^verbatim>\<open>load_tags_from_json\<close> returns that
  array as it is; the default list is not used, the file is not written, nothing is
  printed: the state is unchanged.
\<close>

theorem load_returns_any_array:
  "disk s = Holds (PList xs) \<longrightarrow> load_tags_from_json w s = Inr (xs, s)"
  by (simp add: load_tags_from_json_list)

theorem load_returns_any_array_witness:
  "load_tags_from_json WriteInterrupted (door\<lparr>disk := Holds (PList [])\<rparr>)
     = Inr ([], door\<lparr>disk := Holds (PList [])\<rparr>)
   \<and> load_tags_from_json WriteInterrupted
       (door\<lparr>disk := Holds (PList [PInt 7, PStr ''1'', PStr ''1'', PNone])\<rparr>)
     = Inr ([PInt 7, PStr ''1'', PStr ''1'', PNone],
            door\<lparr>disk := Holds (PList [PInt 7, PStr ''1'', PStr ''1'', PNone])\<rparr>)"
  using load_returns_any_array [where w = WriteInterrupted and xs = "[]"
      and s = "door\<lparr>disk := Holds (PList [])\<rparr>"]
    load_returns_any_array [where w = WriteInterrupted
      and xs = "[PInt 7, PStr ''1'', PStr ''1'', PNone]"
      and s = "door\<lparr>disk := Holds (PList [PInt 7, PStr ''1'', PStr ''1'', PNone])\<rparr>"]
  by simp

end
